theory Spec2Isabelle
  imports Main "HOL-Library.Word"
begin

section \<open>SeExpr: the Expression class of src/SeExpr/Expression.h\<close>

text \<open>
  The header defines the variable references (\<open>ExprVarRef\<close> and its two subclasses)
  and the class \<open>Expression\<close> with its in-line members. A C++ \<open>int\<close> is a 32-bit
  two's-complement word, read as a signed number by \<open>sint\<close>; its arithmetic wraps around
  here, where C++ leaves signed overflow undefined. A \<open>std::vector\<close> is a list
  (\<open>push_back\<close> appends at the end), a \<open>std::set\<close> of strings is a set. A \<open>const\<close>
  member that writes a \<open>mutable\<close> field takes the object and returns the updated one.
\<close>

type_synonym c_int = "32 word"

subsection \<open>Type descriptors\<close>

text \<open>
  Modelled from the spec: the class \<open>ExprType\<close> (ExprType.h) is not among the sources;
  the header only builds values of it (\<open>ExprType().FP(dim).Varying()\<close>,
  \<open>ExprType().Error().Varying()\<close>, \<open>ExprType().FP(3)\<close>). Section 3 of the spec: a kind among
  Error, Numeric(dimension) and String, and a variability among Constant and Varying. The
  dimension is the \<open>int\<close> the header passes to \<open>FP\<close>.
\<close>

datatype Variability = Constant | Varying

datatype Kind = ErrorKind | Numeric c_int | StringKind

record ExprType =
  kind :: Kind
  variability :: Variability

text \<open>
  Modelled from the spec: section 4.1, \<open>numeric(dimension)\<close> has the given dimension and
  Varying variability (the default constructor's behaviour), \<open>error()\<close> and \<open>string()\<close>
  are the descriptors of the two other kinds, and \<open>withVariability\<close> returns a copy with
  the variability overridden.
\<close>

definition numeric :: "c_int \<Rightarrow> ExprType" where
  "numeric d = \<lparr>kind = Numeric d, variability = Varying\<rparr>"

definition error_type :: ExprType where
  "error_type = \<lparr>kind = ErrorKind, variability = Varying\<rparr>"

definition string_type :: ExprType where
  "string_type = \<lparr>kind = StringKind, variability = Varying\<rparr>"

definition withVariability :: "Variability \<Rightarrow> ExprType \<Rightarrow> ExprType" where
  "withVariability v t = t\<lparr>variability := v\<rparr>"

subsection \<open>The Expression object\<close>

datatype EvaluationStrategy = UseInterpreter | UseLLVM

text \<open>\<open>struct Error\<close>: the text of the error and its start and end offsets.\<close>

record Error =
  error :: string
  startPos :: c_int
  endPos :: c_int

text \<open>
  The data members of \<open>Expression\<close>, \<open>_name\<close> written \<open>m_name\<close>. The parse tree is a
  pointer to an \<open>ExprNode\<close> (a class that is only declared), null when the syntax is bad:
  an option over the type parameter \<open>'n\<close>. The handles of the interpreter and of the
  LLVM back end are left out: no member modelled here reads or writes them.
\<close>

record 'n Expression =
  m_wantVec :: bool
  m_returnType :: ExprType
  m_expression :: string
  m_evaluationStrategy :: EvaluationStrategy
  m_desiredReturnType :: ExprType
  m_parseTree :: "'n option"
  m_isValid :: bool
  m_parsed :: bool
  m_prepped :: bool
  m_parseError :: string
  m_errors :: "Error list"
  m_comments :: "(c_int \<times> c_int) list"
  m_vars :: "string set"
  m_funcs :: "string set"
  m_threadUnsafeFunctionCalls :: "string list"

definition getExpr :: "'n Expression \<Rightarrow> string" where
  "getExpr e = m_expression e"

definition parseError :: "'n Expression \<Rightarrow> string" where
  "parseError e = m_parseError e"

definition getErrors :: "'n Expression \<Rightarrow> Error list" where
  "getErrors e = m_errors e"

definition getComments :: "'n Expression \<Rightarrow> (c_int \<times> c_int) list" where
  "getComments e = m_comments e"

definition isThreadSafe :: "'n Expression \<Rightarrow> bool" where
  "isThreadSafe e = (length (m_threadUnsafeFunctionCalls e) = 0)"

definition setThreadUnsafe :: "string \<Rightarrow> 'n Expression \<Rightarrow> 'n Expression" where
  "setThreadUnsafe functionName e =
     e\<lparr>m_threadUnsafeFunctionCalls := m_threadUnsafeFunctionCalls e @ [functionName]\<rparr>"

definition getThreadUnsafeFunctionCalls :: "'n Expression \<Rightarrow> string list" where
  "getThreadUnsafeFunctionCalls e = m_threadUnsafeFunctionCalls e"

definition wantVec :: "'n Expression \<Rightarrow> bool" where
  "wantVec e = m_wantVec e"

definition addError :: "string \<Rightarrow> c_int \<Rightarrow> c_int \<Rightarrow> 'n Expression \<Rightarrow> 'n Expression" where
  "addError err startPosIn endPosIn e =
     e\<lparr>m_errors := m_errors e @ [\<lparr>error = err, startPos = startPosIn, endPos = endPosIn\<rparr>]\<rparr>"

definition addComment :: "c_int \<Rightarrow> c_int \<Rightarrow> 'n Expression \<Rightarrow> 'n Expression" where
  "addComment pos len e = e\<lparr>m_comments := m_comments e @ [(pos, len + pos - 1)]\<rparr>"

definition addVar :: "string \<Rightarrow> 'n Expression \<Rightarrow> 'n Expression" where
  "addVar n e = e\<lparr>m_vars := insert n (m_vars e)\<rparr>"

definition addFunc :: "string \<Rightarrow> 'n Expression \<Rightarrow> 'n Expression" where
  "addFunc n e = e\<lparr>m_funcs := insert n (m_funcs e)\<rparr>"

text \<open>A run of calls, first to last, on one object.\<close>

definition setThreadUnsafe_calls :: "string list \<Rightarrow> 'n Expression \<Rightarrow> 'n Expression" where
  "setThreadUnsafe_calls names e = fold setThreadUnsafe names e"

definition addError_calls ::
  "(string \<times> c_int \<times> c_int) list \<Rightarrow> 'n Expression \<Rightarrow> 'n Expression" where
  "addError_calls calls e = fold (\<lambda>(err, s, t). addError err s t) calls e"

definition addComment_calls :: "(c_int \<times> c_int) list \<Rightarrow> 'n Expression \<Rightarrow> 'n Expression" where
  "addComment_calls calls e = fold (\<lambda>(pos, len). addComment pos len) calls e"

text \<open>
  What a run of \<open>addError\<close> calls is expected to leave (one \<open>Error\<close> per call) and the
  span a comment at \<open>pos\<close> of \<open>length\<close> characters covers, its end included.
\<close>

definition Error_of :: "string \<times> c_int \<times> c_int \<Rightarrow> Error" where
  "Error_of c = (case c of (err, s, t) \<Rightarrow> \<lparr>error = err, startPos = s, endPos = t\<rparr>)"

definition comment_span :: "c_int \<times> c_int \<Rightarrow> c_int \<times> c_int" where
  "comment_span c = (case c of (pos, len) \<Rightarrow> (pos, pos + len - 1))"

subsection \<open>Type unification\<close>

text \<open>
  Modelled from the spec: \<open>unify\<close> is a member of the missing \<open>ExprType\<close>. Section 3:
  Error dominates every other kind (combining Error with anything yields Error), Varying
  dominates Constant. Section 4.1: a kind mismatch (Numeric against String, or dimensions
  that differ beyond the scalar-broadcast rule) yields Error; otherwise the kind is
  preserved and the variability is the dominant one of the two. Section 9: two different
  dimensions are an Error unless one operand has dimension 1.
\<close>

definition dominant :: "Variability \<Rightarrow> Variability \<Rightarrow> Variability" where
  "dominant a b = (if a = Varying \<or> b = Varying then Varying else Constant)"

fun unify_kind :: "Kind \<Rightarrow> Kind \<Rightarrow> Kind" where
  "unify_kind ErrorKind k = ErrorKind"
| "unify_kind k ErrorKind = ErrorKind"
| "unify_kind (Numeric m) (Numeric n) =
     (if m = n then Numeric m
      else if m = 1 then Numeric n
      else if n = 1 then Numeric m
      else ErrorKind)"
| "unify_kind StringKind StringKind = StringKind"
| "unify_kind (Numeric m) StringKind = ErrorKind"
| "unify_kind StringKind (Numeric n) = ErrorKind"

definition unify :: "ExprType \<Rightarrow> ExprType \<Rightarrow> ExprType" where
  "unify a b =
     (let k = unify_kind (kind a) (kind b)
      in if k = ErrorKind then error_type
         else \<lparr>kind = k, variability = dominant (variability a) (variability b)\<rparr>)"

subsection \<open>Variable references\<close>

text \<open>
  Modelled from the spec: \<open>Vec3d\<close> (Vec3d.h) is not among the sources; it is a vector of
  three doubles that \<open>operator[]\<close> reads at 0, 1 and 2, the only indices the header uses.
  The type \<open>'d\<close> stands for \<open>double\<close>: the members below copy such values and compute
  nothing with them.
\<close>

datatype 'd Vec3d = Vec3d 'd 'd 'd

fun Vec3d_index :: "'d Vec3d \<Rightarrow> nat \<Rightarrow> 'd" where
  "Vec3d_index (Vec3d x y z) k = (if k = 0 then x else if k = 1 then y else z)"

text \<open>
  \<open>ExprVarRef\<close> holds the type; its subclasses \<open>ExprVectorVarRef\<close> and
  \<open>ExprScalarVarRef\<close> leave \<open>eval(const ExprVarNode*, Vec3d&)\<close> pure virtual: the host's
  implementation is the field \<open>eval_node\<close>, a function from the \<open>Vec3d\<close> it is handed by
  reference to the \<open>Vec3d\<close> it leaves there (the header passes the null node).
\<close>

datatype VarRefClass = VectorVarRef | ScalarVarRef

record 'd ExprVarRef =
  m_type :: ExprType
  ref_class :: VarRefClass
  eval_node :: "'d Vec3d \<Rightarrow> 'd Vec3d"

definition ExprVectorVarRef :: "c_int \<Rightarrow> ('d Vec3d \<Rightarrow> 'd Vec3d) \<Rightarrow> 'd ExprVarRef" where
  "ExprVectorVarRef dim h =
     \<lparr>m_type = withVariability Varying (numeric dim), ref_class = VectorVarRef, eval_node = h\<rparr>"

definition ExprScalarVarRef :: "('d Vec3d \<Rightarrow> 'd Vec3d) \<Rightarrow> 'd ExprVarRef" where
  "ExprScalarVarRef h =
     \<lparr>m_type = withVariability Varying (numeric 1), ref_class = ScalarVarRef, eval_node = h\<rparr>"

definition setType :: "ExprType \<Rightarrow> 'd ExprVarRef \<Rightarrow> 'd ExprVarRef" where
  "setType t r = r\<lparr>m_type := t\<rparr>"

definition varRef_type :: "'d ExprVarRef \<Rightarrow> ExprType" where
  "varRef_type r = m_type r"

definition varRef_isVec :: "'d ExprVarRef \<Rightarrow> bool" where
  "varRef_isVec r = (case ref_class r of VectorVarRef \<Rightarrow> True | ScalarVarRef \<Rightarrow> False)"

text \<open>
  \<open>assert(c)\<close> aborts the program when \<open>c\<close> is false, unless the translation unit
  that includes the header is compiled with \<open>NDEBUG\<close>, which makes the macro empty. The
  header does not fix this: the build is the parameter \<open>ndebug\<close>. A failed assertion is
  the one failure of these members; a member that can abort returns \<open>Inl\<close> of the failure
  or \<open>Inr\<close> of the storage it leaves.
\<close>

datatype failure = AssertionFailure

definition c_assert :: "bool \<Rightarrow> bool \<Rightarrow> failure + unit" where
  "c_assert ndebug c = (if ndebug \<or> c then Inr () else Inl AssertionFailure)"

text \<open>
  \<open>for(int k=0;k<n;k++) result[k]=ret[k];\<close> with n = 3 or n = 1. The caller's
  \<open>double* result\<close> is the memory from that address on, a function from the index to the
  double stored there.
\<close>

function copy_components :: "nat \<Rightarrow> nat \<Rightarrow> 'd Vec3d \<Rightarrow> (nat \<Rightarrow> 'd) \<Rightarrow> (nat \<Rightarrow> 'd)" where
  "copy_components k n ret result =
     (if k < n then copy_components (k + 1) n ret (result(k := Vec3d_index ret k))
      else result)"
  by pat_completeness auto
termination
  by (relation "measure (\<lambda>(k, n, ret, result). n - k)") auto

declare copy_components.simps [simp del]

text \<open>
  \<open>eval(double* result)\<close> of the two subclasses; \<open>ret0\<close> is the local \<open>Vec3d ret\<close> as its
  default constructor leaves it.
\<close>

definition ExprVectorVarRef_eval ::
  "'d ExprVarRef \<Rightarrow> 'd Vec3d \<Rightarrow> (nat \<Rightarrow> 'd) \<Rightarrow> failure + (nat \<Rightarrow> 'd)" where
  "ExprVectorVarRef_eval r ret0 result =
     (let ret = eval_node r ret0 in Inr (copy_components 0 3 ret result))"

definition ExprScalarVarRef_eval ::
  "'d ExprVarRef \<Rightarrow> 'd Vec3d \<Rightarrow> (nat \<Rightarrow> 'd) \<Rightarrow> failure + (nat \<Rightarrow> 'd)" where
  "ExprScalarVarRef_eval r ret0 result =
     (let ret = eval_node r ret0 in Inr (copy_components 0 1 ret result))"

text \<open>
  \<open>eval(const char** result)\<close> of the two subclasses, body \<open>assert(false);\<close>: after
  the assertion the member returns without writing. The caller's cell holds a string
  pointer (null or a string).
\<close>

definition ExprVectorVarRef_eval_str ::
  "bool \<Rightarrow> 'd ExprVarRef \<Rightarrow> string option \<Rightarrow> failure + string option" where
  "ExprVectorVarRef_eval_str ndebug r result =
     (case c_assert ndebug False of Inl f \<Rightarrow> Inl f | Inr u \<Rightarrow> Inr result)"

definition ExprScalarVarRef_eval_str ::
  "bool \<Rightarrow> 'd ExprVarRef \<Rightarrow> string option \<Rightarrow> failure + string option" where
  "ExprScalarVarRef_eval_str ndebug r result =
     (case c_assert ndebug False of Inl f \<Rightarrow> Inl f | Inr u \<Rightarrow> Inr result)"

text \<open>The virtual calls \<open>ref->eval(double*)\<close> and \<open>ref->eval(const char**)\<close>.\<close>

definition eval_double ::
  "'d ExprVarRef \<Rightarrow> 'd Vec3d \<Rightarrow> (nat \<Rightarrow> 'd) \<Rightarrow> failure + (nat \<Rightarrow> 'd)" where
  "eval_double r ret0 result =
     (case ref_class r of
        VectorVarRef \<Rightarrow> ExprVectorVarRef_eval r ret0 result
      | ScalarVarRef \<Rightarrow> ExprScalarVarRef_eval r ret0 result)"

definition eval_str ::
  "bool \<Rightarrow> 'd ExprVarRef \<Rightarrow> string option \<Rightarrow> failure + string option" where
  "eval_str ndebug r result =
     (case ref_class r of
        VectorVarRef \<Rightarrow> ExprVectorVarRef_eval_str ndebug r result
      | ScalarVarRef \<Rightarrow> ExprScalarVarRef_eval_str ndebug r result)"

subsection \<open>Staging\<close>

text \<open>
  Modelled from the spec: \<open>parse()\<close> is declared in the header and its body is missing.
  Section 4.3: it runs the external parser, which records errors and comments on the
  object and leaves the tree (null on a syntax failure); section 3: parse runs at most
  once per text generation, and the header's comment on \<open>_parsed\<close> says the flag is set
  once the expression is parsed. The external parser is the parameter \<open>P\<close>: it is handed
  the object and returns it with whatever it recorded.
\<close>

definition parse :: "('n Expression \<Rightarrow> 'n Expression) \<Rightarrow> 'n Expression \<Rightarrow> 'n Expression" where
  "parse P e = (P e)\<lparr>m_parsed := True\<rparr>"

text \<open>\<open>void parseIfNeeded() const { if (!_parsed) parse(); }\<close>\<close>

definition parseIfNeeded ::
  "('n Expression \<Rightarrow> 'n Expression) \<Rightarrow> 'n Expression \<Rightarrow> 'n Expression" where
  "parseIfNeeded P e = (if \<not> m_parsed e then parse P e else e)"

text \<open>
  Modelled from the spec: \<open>prep()\<close> is declared in the header and its body is missing.
  Section 3: prepare implies that parse has run; section 4.3: it walks the tree, resolves
  the references, records errors, usage sets and thread-unsafe calls and marks the
  expression valid or invalid; the flag \<open>_prepped\<close> is set once the expression is
  prepped. The tree walk with the host's resolvers is the parameter \<open>B\<close>.
\<close>

definition prep ::
  "('n Expression \<Rightarrow> 'n Expression) \<Rightarrow> ('n Expression \<Rightarrow> 'n Expression) \<Rightarrow>
   'n Expression \<Rightarrow> 'n Expression" where
  "prep P B e = (B (parseIfNeeded P e))\<lparr>m_prepped := True\<rparr>"

text \<open>\<open>void prepIfNeeded() const { if (!_prepped) prep(); }\<close>\<close>

definition prepIfNeeded ::
  "('n Expression \<Rightarrow> 'n Expression) \<Rightarrow> ('n Expression \<Rightarrow> 'n Expression) \<Rightarrow>
   'n Expression \<Rightarrow> 'n Expression" where
  "prepIfNeeded P B e = (if \<not> m_prepped e then prep P B e else e)"

text \<open>\<open>bool isValid() const { prepIfNeeded(); return _isValid; }\<close>\<close>

definition isValid ::
  "('n Expression \<Rightarrow> 'n Expression) \<Rightarrow> ('n Expression \<Rightarrow> 'n Expression) \<Rightarrow>
   'n Expression \<Rightarrow> bool \<times> 'n Expression" where
  "isValid P B e = (let e' = prepIfNeeded P B e in (m_isValid e', e'))"

text \<open>\<open>isValid()\<close> called n times in a row: the answers, first to last, and the object.\<close>

fun isValid_times ::
  "nat \<Rightarrow> ('n Expression \<Rightarrow> 'n Expression) \<Rightarrow> ('n Expression \<Rightarrow> 'n Expression) \<Rightarrow>
   'n Expression \<Rightarrow> bool list \<times> 'n Expression" where
  "isValid_times 0 P B e = ([], e)"
| "isValid_times (Suc n) P B e =
     (case isValid P B e of (b, e1) \<Rightarrow>
        (case isValid_times n P B e1 of (bs, e2) \<Rightarrow> (b # bs, e2)))"

text \<open>
  Modelled from the spec: \<open>setExpr\<close> is declared in the header (its comment: this invalidates
  all parsed state) and its body is missing. Section 4.3: it unconditionally resets to Empty
  regardless of the current state, discarding the cached tree, errors, comments, usage
  sets and thread-safety list; section 3: re-setting the text resets all cached state to
  unparsed. The spec names no value for the computed return type of an unparsed
  expression: that field is left as it is.
\<close>

definition setExpr :: "string \<Rightarrow> 'n Expression \<Rightarrow> 'n Expression" where
  "setExpr text e =
     e\<lparr>m_expression := text, m_parseTree := None, m_isValid := False, m_parsed := False,
       m_prepped := False, m_parseError := [], m_errors := [], m_comments := [],
       m_vars := {}, m_funcs := {}, m_threadUnsafeFunctionCalls := []\<rparr>"

text \<open>
  Modelled from the spec: the bodies of \<open>syntaxOK\<close>, \<open>isConstant\<close>, \<open>usesVar\<close>,
  \<open>usesFunc\<close>, \<open>isVec\<close> and \<open>returnType\<close> are missing. Section 4.3: \<open>syntaxOK\<close>,
  \<open>isConstant\<close>, \<open>usesVar\<close> and \<open>usesFunc\<close> lazily trigger the parse (the header: Expr will
  be parsed if needed, no binding is required), \<open>isVec\<close> and \<open>returnType\<close> the
  prepare. \<open>usesVar\<close> and \<open>usesFunc\<close> answer whether the name is in the set of used
  variables or functions, \<open>returnType\<close> the computed type, \<open>syntaxOK\<close> whether there is a
  tree (the header: the tree is null if the syntax is bad). What \<open>isConstant\<close> and
  \<open>isVec\<close> read off the staged object is said nowhere: the parameters \<open>constOf\<close> and
  \<open>vecOf\<close>.
\<close>

definition syntaxOK ::
  "('n Expression \<Rightarrow> 'n Expression) \<Rightarrow> 'n Expression \<Rightarrow> bool \<times> 'n Expression" where
  "syntaxOK P e = (let e' = parseIfNeeded P e in (m_parseTree e' \<noteq> None, e'))"

definition isConstant ::
  "('n Expression \<Rightarrow> 'n Expression) \<Rightarrow> ('n Expression \<Rightarrow> bool) \<Rightarrow>
   'n Expression \<Rightarrow> bool \<times> 'n Expression" where
  "isConstant P constOf e = (let e' = parseIfNeeded P e in (constOf e', e'))"

definition usesVar ::
  "('n Expression \<Rightarrow> 'n Expression) \<Rightarrow> string \<Rightarrow> 'n Expression \<Rightarrow> bool \<times> 'n Expression" where
  "usesVar P name e = (let e' = parseIfNeeded P e in (name \<in> m_vars e', e'))"

definition usesFunc ::
  "('n Expression \<Rightarrow> 'n Expression) \<Rightarrow> string \<Rightarrow> 'n Expression \<Rightarrow> bool \<times> 'n Expression" where
  "usesFunc P name e = (let e' = parseIfNeeded P e in (name \<in> m_funcs e', e'))"

definition isVec ::
  "('n Expression \<Rightarrow> 'n Expression) \<Rightarrow> ('n Expression \<Rightarrow> 'n Expression) \<Rightarrow>
   ('n Expression \<Rightarrow> bool) \<Rightarrow> 'n Expression \<Rightarrow> bool \<times> 'n Expression" where
  "isVec P B vecOf e = (let e' = prepIfNeeded P B e in (vecOf e', e'))"

definition returnType ::
  "('n Expression \<Rightarrow> 'n Expression) \<Rightarrow> ('n Expression \<Rightarrow> 'n Expression) \<Rightarrow>
   'n Expression \<Rightarrow> ExprType \<times> 'n Expression" where
  "returnType P B e = (let e' = prepIfNeeded P B e in (m_returnType e', e'))"

subsection \<open>Concrete instances\<close>

text \<open>
  A concrete object in the unparsed state with empty caches: the text
  \<open>$x + rand() # note\<close>, desired type \<open>FP(3)\<close>, interpreter strategy. A parser for it
  that finds the comment at offset 12 (6 characters) and leaves a tree, and a tree walk
  that cannot resolve \<open>x\<close>, resolves \<open>rand\<close> and finds it thread-unsafe.
\<close>

definition unparsed_example :: "unit Expression" where
  "unparsed_example =
     \<lparr>m_wantVec = True, m_returnType = error_type, m_expression = ''$x + rand() # note'',
      m_evaluationStrategy = UseInterpreter, m_desiredReturnType = numeric 3,
      m_parseTree = None, m_isValid = False, m_parsed = False, m_prepped = False,
      m_parseError = [], m_errors = [], m_comments = [], m_vars = {}, m_funcs = {},
      m_threadUnsafeFunctionCalls = []\<rparr>"

definition example_parser :: "unit Expression \<Rightarrow> unit Expression" where
  "example_parser e = (addComment 12 6 e)\<lparr>m_parseTree := Some ()\<rparr>"

definition example_binder :: "unit Expression \<Rightarrow> unit Expression" where
  "example_binder e =
     (setThreadUnsafe ''rand'' (addFunc ''rand'' (addError ''No variable named $x'' 0 1 e)))
       \<lparr>m_isValid := False, m_returnType := error_type\<rparr>"

text \<open>A host's vector variable with components 10, 20, 30, and a buffer of zeros.\<close>

definition example_host :: "int Vec3d \<Rightarrow> int Vec3d" where
  "example_host ret = Vec3d 10 20 30"

definition read4 :: "failure + (nat \<Rightarrow> int) \<Rightarrow> int list" where
  "read4 r = (case r of Inl f \<Rightarrow> [] | Inr buf \<Rightarrow> [buf 0, buf 1, buf 2, buf 3])"

section \<open>Properties\<close>

subsection \<open>Thread-unsafe calls\<close>

lemma setThreadUnsafe_calls_list:
  "m_threadUnsafeFunctionCalls (setThreadUnsafe_calls names e) =
     m_threadUnsafeFunctionCalls e @ names"
  unfolding setThreadUnsafe_calls_def
  by (induction names arbitrary: e) (simp_all add: setThreadUnsafe_def)

text \<open>
  C1. \<open>isThreadSafe()\<close> is true exactly when the list of thread-unsafe calls is empty.
  One \<open>setThreadUnsafe(name)\<close> appends exactly that name at the end, whether or not it is
  already in the list, and touches nothing else. After a run of N calls the list is the old
  list followed by the N names in call order; starting from an empty list it has length N,
  and \<open>isThreadSafe()\<close> is false whenever N > 0.
\<close>

theorem thread_unsafe_calls_accumulate:
  "isThreadSafe e = (getThreadUnsafeFunctionCalls e = [])
   \<and> getThreadUnsafeFunctionCalls (setThreadUnsafe name e)
       = getThreadUnsafeFunctionCalls e @ [name]
   \<and> setThreadUnsafe name e
       = e\<lparr>m_threadUnsafeFunctionCalls := getThreadUnsafeFunctionCalls e @ [name]\<rparr>
   \<and> getThreadUnsafeFunctionCalls (setThreadUnsafe_calls names e)
       = getThreadUnsafeFunctionCalls e @ names
   \<and> (getThreadUnsafeFunctionCalls e = [] \<longrightarrow>
        length (getThreadUnsafeFunctionCalls (setThreadUnsafe_calls names e)) = length names)
   \<and> (0 < length names \<longrightarrow> \<not> isThreadSafe (setThreadUnsafe_calls names e))"
  by (simp add: isThreadSafe_def getThreadUnsafeFunctionCalls_def setThreadUnsafe_def
      setThreadUnsafe_calls_list)

theorem thread_unsafe_calls_accumulate_witness:
  "getThreadUnsafeFunctionCalls unparsed_example = []
   \<and> getThreadUnsafeFunctionCalls
        (setThreadUnsafe_calls [''rand'', ''noise'', ''rand''] unparsed_example)
       = [''rand'', ''noise'', ''rand'']
   \<and> length (getThreadUnsafeFunctionCalls
        (setThreadUnsafe_calls [''rand'', ''noise'', ''rand''] unparsed_example)) = 3
   \<and> \<not> isThreadSafe (setThreadUnsafe_calls [''rand'', ''noise'', ''rand''] unparsed_example)"
  using thread_unsafe_calls_accumulate
    [of unparsed_example "''rand''" "[''rand'', ''noise'', ''rand'']"]
  by (simp add: getThreadUnsafeFunctionCalls_def unparsed_example_def)

subsection \<open>Errors\<close>

lemma addError_calls_list:
  "m_errors (addError_calls calls e) = m_errors e @ map Error_of calls"
  unfolding addError_calls_def
  by (induction calls arbitrary: e) (auto simp: addError_def Error_of_def)

text \<open>
  C5. \<open>addError(message, startPos, endPos)\<close> appends exactly one \<open>Error\<close> with exactly
  that message and those offsets at the end of the error list and changes nothing else of
  the object: the entries already there stay as they are, in place. Nothing is
  deduplicated: the same call twice leaves two equal entries. After a run of calls
  \<open>getErrors()\<close> is the old list followed by one entry per call, in call order.
\<close>

theorem addError_appends:
  "getErrors (addError msg s t e) = getErrors e @ [\<lparr>error = msg, startPos = s, endPos = t\<rparr>]
   \<and> addError msg s t e
       = e\<lparr>m_errors := getErrors e @ [\<lparr>error = msg, startPos = s, endPos = t\<rparr>]\<rparr>
   \<and> take (length (getErrors e)) (getErrors (addError msg s t e)) = getErrors e
   \<and> length (getErrors (addError msg s t e)) = length (getErrors e) + 1
   \<and> getErrors (addError msg s t (addError msg s t e))
       = getErrors e @ [\<lparr>error = msg, startPos = s, endPos = t\<rparr>,
                        \<lparr>error = msg, startPos = s, endPos = t\<rparr>]
   \<and> getErrors (addError_calls calls e) = getErrors e @ map Error_of calls"
  by (simp add: getErrors_def addError_def addError_calls_list)

theorem addError_appends_witness:
  "getErrors (addError ''Syntax error'' 4 7 (addError ''Syntax error'' 4 7 unparsed_example))
     = [\<lparr>error = ''Syntax error'', startPos = 4, endPos = 7\<rparr>,
        \<lparr>error = ''Syntax error'', startPos = 4, endPos = 7\<rparr>]
   \<and> getErrors (addError_calls [(''a'', 0, 1), (''b'', 2, 3), (''a'', 0, 1)] unparsed_example)
     = [\<lparr>error = ''a'', startPos = 0, endPos = 1\<rparr>, \<lparr>error = ''b'', startPos = 2, endPos = 3\<rparr>,
        \<lparr>error = ''a'', startPos = 0, endPos = 1\<rparr>]"
  using addError_appends [of "''Syntax error''" 4 7 unparsed_example
      "[(''a'', 0, 1), (''b'', 2, 3), (''a'', 0, 1)]"]
  by (simp add: getErrors_def unparsed_example_def Error_of_def addError_def
      addError_calls_def)

subsection \<open>Comments\<close>

lemma addComment_calls_list:
  "m_comments (addComment_calls calls e) = m_comments e @ map comment_span calls"
  unfolding addComment_calls_def
  by (induction calls arbitrary: e) (auto simp: addComment_def comment_span_def)

lemma sint_inclusive_end:
  fixes pos len :: c_int
  assumes "- (2 ^ 31) \<le> sint pos + sint len - 1" and "sint pos + sint len - 1 < 2 ^ 31"
  shows "sint (len + pos - 1) = sint pos + sint len - 1"
proof -
  have "len + pos - 1 = (word_of_int (sint pos + sint len - 1) :: 32 word)"
    by simp
  then have "sint (len + pos - 1) = signed_take_bit (LENGTH(32) - 1) (sint pos + sint len - 1)"
    by (simp only: sint_sbintrunc')
  also have "\<dots> = sint pos + sint len - 1"
    using assms by (simp add: signed_take_bit_int_eq_self)
  finally show ?thesis .
qed

text \<open>
  C9. \<open>addComment(pos, length)\<close> appends exactly the pair \<open>(pos, pos + length - 1)\<close> at
  the end of the comment list and changes nothing else; after a run of calls
  \<open>getComments()\<close> is the old list followed by one such pair per call, in call order. The
  end offset is the \<open>int\<close> sum; whenever \<open>pos + length - 1\<close> is representable as an
  \<open>int\<close>, the recorded end is that number, the offset of the comment's last character.
\<close>

theorem addComment_inclusive_end:
  "getComments (addComment pos len e) = getComments e @ [(pos, pos + len - 1)]
   \<and> addComment pos len e = e\<lparr>m_comments := getComments e @ [(pos, pos + len - 1)]\<rparr>
   \<and> getComments (addComment_calls calls e) = getComments e @ map comment_span calls
   \<and> (- (2 ^ 31) \<le> sint pos + sint len - 1 \<and> sint pos + sint len - 1 < 2 ^ 31 \<longrightarrow>
        sint (snd (last (getComments (addComment pos len e)))) = sint pos + sint len - 1)"
  by (simp add: getComments_def addComment_def addComment_calls_list sint_inclusive_end)

theorem addComment_inclusive_end_witness:
  "getComments (addComment 0 6 unparsed_example) = [(0, 5)]
   \<and> getComments (addComment_calls [(0, 6), (10, 4)] unparsed_example) = [(0, 5), (10, 13)]
   \<and> - (2 ^ 31) \<le> sint (0 :: c_int) + sint (6 :: c_int) - 1
   \<and> sint (0 :: c_int) + sint (6 :: c_int) - 1 < 2 ^ 31
   \<and> sint (snd (last (getComments (addComment 0 6 unparsed_example)))) = 5"
  using addComment_inclusive_end [of 0 6 unparsed_example "[(0, 6), (10, 4)]"]
  by (simp add: getComments_def unparsed_example_def comment_span_def)

subsection \<open>Numeric and string access to a variable reference\<close>

lemma copy_components_at:
  "copy_components k n ret result i =
     (if k \<le> i \<and> i < n then Vec3d_index ret i else result i)"
proof (induction k n ret result rule: copy_components.induct)
  case (1 k n ret result)
  show ?case
  proof (cases "k < n")
    case True
    have step: "copy_components k n ret result
                  = copy_components (k + 1) n ret (result(k := Vec3d_index ret k))"
      using True by (subst copy_components.simps) simp
    have ih: "copy_components (k + 1) n ret (result(k := Vec3d_index ret k)) i
                = (if k + 1 \<le> i \<and> i < n then Vec3d_index ret i
                   else (result(k := Vec3d_index ret k)) i)"
      by (rule "1.IH" [OF True])
    show ?thesis
      unfolding step ih using True by auto
  next
    case False
    then show ?thesis
      by (subst copy_components.simps) auto
  qed
qed

lemma copy_components_from_0:
  "copy_components 0 n ret result = (\<lambda>i. if i < n then Vec3d_index ret i else result i)"
  by (rule ext) (simp add: copy_components_at)

text \<open>
  C10. The numeric \<open>eval(double* result)\<close> of a vector reference writes exactly the cells
  0, 1 and 2 of the caller's buffer, with the components 0, 1 and 2 of the \<open>Vec3d\<close> the
  node-based eval produced, and leaves every other cell as it was: this for every
  dimension the reference was constructed with and every type set on it later. That of a
  scalar reference writes exactly cell 0, with component 0, and nothing else.
\<close>

theorem numeric_eval_writes_fixed_count:
  "eval_double (ExprVectorVarRef dim h) ret0 result
     = Inr (\<lambda>k. if k < 3 then Vec3d_index (h ret0) k else result k)
   \<and> eval_double (ExprScalarVarRef h) ret0 result
     = Inr (\<lambda>k. if k < 1 then Vec3d_index (h ret0) k else result k)
   \<and> ExprVectorVarRef_eval r ret0 result
     = Inr (\<lambda>k. if k < 3 then Vec3d_index (eval_node r ret0) k else result k)
   \<and> ExprScalarVarRef_eval r ret0 result
     = Inr (\<lambda>k. if k < 1 then Vec3d_index (eval_node r ret0) k else result k)
   \<and> eval_double (setType t r) ret0 result = eval_double r ret0 result"
  by (simp add: eval_double_def ExprVectorVarRef_def ExprScalarVarRef_def
      ExprVectorVarRef_eval_def ExprScalarVarRef_eval_def copy_components_from_0 setType_def
      split: VarRefClass.split)

theorem numeric_eval_writes_fixed_count_witness:
  "read4 (eval_double (ExprVectorVarRef 2 example_host) (Vec3d 0 0 0) (\<lambda>k. 0))
     = [10, 20, 30, 0]
   \<and> read4 (eval_double (ExprScalarVarRef example_host) (Vec3d 0 0 0) (\<lambda>k. 0))
     = [10, 0, 0, 0]"
  using numeric_eval_writes_fixed_count [of 2 example_host "Vec3d 0 0 0" "\<lambda>k. 0"]
  by (simp add: read4_def example_host_def)

text \<open>
  C7, as the claim states it, fails: in a build with \<open>NDEBUG\<close> the string
  \<open>eval(const char** result)\<close> of a vector reference and of a scalar reference does
  not abort; it returns normally and leaves the caller's cell as it was.
\<close>

theorem string_eval_returns_under_NDEBUG:
  "eval_str True (ExprVectorVarRef 3 example_host) (Some ''old'') = Inr (Some ''old'')
   \<and> eval_str True (ExprScalarVarRef example_host) (Some ''old'') = Inr (Some ''old'')
   \<and> eval_str True (ExprVectorVarRef 3 example_host) (Some ''old'') \<noteq> Inl AssertionFailure
   \<and> eval_str True (ExprScalarVarRef example_host) (Some ''old'') \<noteq> Inl AssertionFailure"
  by (simp add: eval_str_def ExprVectorVarRef_eval_str_def ExprScalarVarRef_eval_str_def
      ExprVectorVarRef_def ExprScalarVarRef_def c_assert_def)

text \<open>
  C7, amended. The string \<open>eval(const char** result)\<close> of a vector reference and of a
  scalar reference is \<open>assert(false)\<close>: in a build with assertions compiled in the call
  aborts, in a build with \<open>NDEBUG\<close> it returns normally, and in both no string is
  written: whenever the call returns, the caller's cell is as it was. This for every
  reference and every content of the cell. The numeric \<open>eval(double* result)\<close> of the
  same references has no failing branch: a caller that uses only it, the accessor of
  their kind, never reaches the assertion.
\<close>

theorem string_eval_asserts:
  "eval_str ndebug r cell = (if ndebug then Inr cell else Inl AssertionFailure)
   \<and> ExprVectorVarRef_eval_str ndebug r cell
       = (if ndebug then Inr cell else Inl AssertionFailure)
   \<and> ExprScalarVarRef_eval_str ndebug r cell
       = (if ndebug then Inr cell else Inl AssertionFailure)
   \<and> eval_str False r cell = Inl AssertionFailure
   \<and> eval_str True r cell = Inr cell
   \<and> (\<forall>cell'. eval_str ndebug r cell = Inr cell' \<longrightarrow> cell' = cell)
   \<and> (\<exists>result'. eval_double r ret0 result = Inr result')
   \<and> eval_double r ret0 result \<noteq> Inl AssertionFailure"
  by (simp add: eval_str_def eval_double_def ExprVectorVarRef_eval_str_def
      ExprScalarVarRef_eval_str_def ExprVectorVarRef_eval_def ExprScalarVarRef_eval_def
      c_assert_def split: VarRefClass.split)

theorem string_eval_asserts_witness:
  "eval_str False (ExprVectorVarRef 3 example_host) None = Inl AssertionFailure
   \<and> eval_str False (ExprScalarVarRef example_host) (Some ''old'') = Inl AssertionFailure
   \<and> eval_str True (ExprScalarVarRef example_host) (Some ''old'') = Inr (Some ''old'')
   \<and> read4 (eval_double (ExprVectorVarRef 3 example_host) (Vec3d 0 0 0) (\<lambda>k. 0))
       = [10, 20, 30, 0]"
  using string_eval_asserts
      [of False "ExprVectorVarRef 3 example_host" None "Vec3d 0 0 0" "\<lambda>k. 0"]
    string_eval_asserts
      [of False "ExprScalarVarRef example_host" "Some ''old''" "Vec3d 0 0 0" "\<lambda>k. 0"]
    string_eval_asserts
      [of True "ExprScalarVarRef example_host" "Some ''old''" "Vec3d 0 0 0" "\<lambda>k. 0"]
  by (simp add: read4_def example_host_def eval_double_def ExprVectorVarRef_def
      ExprVectorVarRef_eval_def copy_components_from_0)

subsection \<open>Type unification\<close>

lemma unify_kind_Error_right: "unify_kind k ErrorKind = ErrorKind"
  by (cases k) simp_all

lemma unify_kind_same: "unify_kind k k = k"
  by (cases k) simp_all

text \<open>
  C6. Unifying the Error descriptor with any descriptor, on either side, gives the Error
  descriptor, and so does unifying any two descriptors one of which has kind Error. Two
  operands of the same kind other than Error, with compatible dimensions when they are
  Numeric (equal, or one of them 1: the scalar broadcast), unify to that kind with the
  dominant variability, where Varying dominates Constant: two Strings to String, two
  Numerics of equal dimension to that dimension, a scalar and a vector to the vector's
  dimension. Two Numerics of different dimensions neither of which is 1, and a Numeric
  with a String, unify to Error. In particular \<open>unify(Error, Numeric(3))\<close> is Error and
  \<open>unify(Numeric(1, Constant), Numeric(1, Varying))\<close> is \<open>Numeric(1, Varying)\<close>.
\<close>

theorem unify_dominance:
  "unify error_type t = error_type
   \<and> unify t error_type = error_type
   \<and> (kind a = ErrorKind \<or> kind b = ErrorKind \<longrightarrow> unify a b = error_type)
   \<and> (kind c = kind d \<and> kind c \<noteq> ErrorKind \<longrightarrow>
        unify c d = \<lparr>kind = kind c, variability = dominant (variability c) (variability d)\<rparr>)
   \<and> (kind u = Numeric m \<and> kind v = Numeric n \<and> (m = n \<or> m = 1 \<or> n = 1) \<longrightarrow>
        unify u v = \<lparr>kind = Numeric (if m = 1 then n else m),
                      variability = dominant (variability u) (variability v)\<rparr>)
   \<and> (kind u = Numeric m \<and> kind v = Numeric n \<and> m \<noteq> n \<and> m \<noteq> 1 \<and> n \<noteq> 1 \<longrightarrow>
        unify u v = error_type)
   \<and> (kind u = StringKind \<and> kind v = StringKind \<longrightarrow>
        unify u v = \<lparr>kind = StringKind,
                      variability = dominant (variability u) (variability v)\<rparr>)
   \<and> (kind u = Numeric m \<and> kind v = StringKind \<longrightarrow> unify u v = error_type)
   \<and> (kind u = StringKind \<and> kind v = Numeric n \<longrightarrow> unify u v = error_type)
   \<and> dominant Constant Varying = Varying \<and> dominant Varying Constant = Varying
   \<and> dominant Varying Varying = Varying \<and> dominant Constant Constant = Constant
   \<and> unify error_type (numeric 3) = error_type
   \<and> unify (withVariability Constant (numeric 1)) (withVariability Varying (numeric 1))
       = withVariability Varying (numeric 1)"
  by (auto simp: unify_def error_type_def numeric_def withVariability_def dominant_def
      unify_kind_Error_right unify_kind_same)

theorem unify_dominance_witness:
  "kind (withVariability Constant error_type) = ErrorKind
   \<and> unify (withVariability Constant error_type) (numeric 3) = error_type
   \<and> kind (withVariability Constant (numeric 3)) = kind (numeric 3)
   \<and> kind (withVariability Constant (numeric 3)) \<noteq> ErrorKind
   \<and> unify (withVariability Constant (numeric 3)) (numeric 3) = numeric 3
   \<and> unify (withVariability Constant (numeric 3)) (withVariability Constant (numeric 3))
       = withVariability Constant (numeric 3)
   \<and> kind (withVariability Constant (numeric 1)) = Numeric 1
   \<and> unify (withVariability Constant (numeric 1)) (withVariability Constant (numeric 3))
       = withVariability Constant (numeric 3)
   \<and> unify (numeric 3) (withVariability Constant (numeric 1)) = numeric 3
   \<and> unify (numeric 2) (numeric 3) = error_type
   \<and> unify (withVariability Constant string_type) string_type = string_type
   \<and> unify (numeric 3) string_type = error_type
   \<and> unify string_type (numeric 3) = error_type"
  using unify_dominance [of string_type "withVariability Constant error_type" "numeric 3"
      "withVariability Constant (numeric 3)" "numeric 3"
      "withVariability Constant (numeric 1)" 1 "withVariability Constant (numeric 3)" 3]
    unify_dominance [of string_type "withVariability Constant error_type" "numeric 3"
      "withVariability Constant (numeric 3)" "withVariability Constant (numeric 3)"
      "numeric 3" 3 "withVariability Constant (numeric 1)" 1]
    unify_dominance [of string_type "withVariability Constant error_type" "numeric 3"
      "withVariability Constant (numeric 3)" "numeric 3"
      "numeric 2" 2 "numeric 3" 3]
    unify_dominance [of string_type "withVariability Constant error_type" "numeric 3"
      "withVariability Constant (numeric 3)" "numeric 3"
      "withVariability Constant string_type" 3 string_type 3]
    unify_dominance [of string_type "withVariability Constant error_type" "numeric 3"
      "withVariability Constant (numeric 3)" "numeric 3"
      "numeric 3" 3 string_type 3]
    unify_dominance [of string_type "withVariability Constant error_type" "numeric 3"
      "withVariability Constant (numeric 3)" "numeric 3"
      string_type 3 "numeric 3" 3]
  by (simp add: error_type_def numeric_def string_type_def withVariability_def dominant_def)

subsection \<open>Staging\<close>

lemma isValid_prepped: "m_prepped (snd (isValid P B e))"
  by (simp add: isValid_def prepIfNeeded_def prep_def Let_def)

lemma isValid_of_prepped: "m_prepped e \<Longrightarrow> isValid P B e = (m_isValid e, e)"
  by (simp add: isValid_def prepIfNeeded_def Let_def)

lemma isValid_fst: "fst (isValid P B e) = m_isValid (snd (isValid P B e))"
  by (simp add: isValid_def Let_def)

lemma isValid_times_prepped:
  "m_prepped e \<Longrightarrow> isValid_times n P B e = (replicate n (m_isValid e), e)"
  by (induction n) (simp_all add: isValid_of_prepped replicate_append_same)

lemmas staging_defs =
  isValid_def prepIfNeeded_def prep_def parseIfNeeded_def parse_def Let_def

lemmas example_defs =
  unparsed_example_def example_parser_def example_binder_def addError_def addComment_def
  addFunc_def setThreadUnsafe_def

text \<open>
  C3. \<open>isValid()\<close> called N times in a row (N at least 1), with no \<open>setExpr\<close> in
  between, answers the same boolean every time, and the object after the N calls is the
  object after the first call: the error list, like every other field, is as the first
  call left it. The first call sets \<open>_prepped\<close>, so \<open>prepIfNeeded()\<close> runs \<open>prep()\<close> in
  no later call. This for every parser and every tree walk.
\<close>

theorem isValid_idempotent:
  "isValid_times (Suc n) P B e
     = (replicate (Suc n) (fst (isValid P B e)), snd (isValid P B e))
   \<and> isValid P B (snd (isValid P B e)) = isValid P B e
   \<and> getErrors (snd (isValid_times (Suc n) P B e)) = getErrors (snd (isValid P B e))"
proof -
  obtain b e1 where first: "isValid P B e = (b, e1)"
    by (cases "isValid P B e")
  have prepped: "m_prepped e1"
    using isValid_prepped [of P B e] first by simp
  have b: "b = m_isValid e1"
    using isValid_fst [of P B e] first by simp
  have rest: "isValid_times n P B e1 = (replicate n b, e1)"
    using isValid_times_prepped [OF prepped] b by simp
  have again: "isValid P B e1 = (b, e1)"
    using isValid_of_prepped [OF prepped] b by simp
  show ?thesis
    by (simp add: first rest again)
qed

theorem isValid_idempotent_witness:
  "isValid_times 3 example_parser example_binder unparsed_example
     = ([False, False, False], snd (isValid example_parser example_binder unparsed_example))
   \<and> getErrors (snd (isValid_times 3 example_parser example_binder unparsed_example))
       = [\<lparr>error = ''No variable named $x'', startPos = 0, endPos = 1\<rparr>]"
  using isValid_idempotent [of 2 example_parser example_binder unparsed_example]
  by (simp add: numeral_3_eq_3 staging_defs example_defs getErrors_def)

text \<open>
  C4. \<open>setExpr(text)\<close> leaves the object unparsed and unprepared with the new text, no
  tree, no errors, no comments, empty usage sets and an empty thread-safety list,
  whatever its state was. Its result does not depend on any of the cached state of the
  object it is called on, nor on the previous text: so whatever is computed afterwards, the
  errors that a later \<open>isValid()\<close> leaves for \<open>getErrors()\<close> in particular, is the same
  as if the previous text had left no errors.
\<close>

theorem setExpr_resets:
  "getExpr (setExpr text e) = text
   \<and> \<not> m_parsed (setExpr text e) \<and> \<not> m_prepped (setExpr text e)
   \<and> m_parseTree (setExpr text e) = None
   \<and> getErrors (setExpr text e) = []
   \<and> getComments (setExpr text e) = []
   \<and> m_vars (setExpr text e) = {} \<and> m_funcs (setExpr text e) = {}
   \<and> getThreadUnsafeFunctionCalls (setExpr text e) = []
   \<and> isThreadSafe (setExpr text e)
   \<and> setExpr text
        (e\<lparr>m_expression := old, m_parseTree := tr, m_isValid := v, m_parsed := p,
           m_prepped := q, m_parseError := pe, m_errors := es, m_comments := cs,
           m_vars := vs, m_funcs := fs, m_threadUnsafeFunctionCalls := us\<rparr>)
       = setExpr text e
   \<and> getErrors (snd (isValid P B (setExpr text (e\<lparr>m_expression := old, m_errors := es\<rparr>))))
       = getErrors (snd (isValid P B (setExpr text e)))"
  by (simp add: setExpr_def getExpr_def getErrors_def getComments_def
      getThreadUnsafeFunctionCalls_def isThreadSafe_def)

theorem setExpr_resets_witness:
  "getErrors (snd (isValid example_parser example_binder unparsed_example))
     = [\<lparr>error = ''No variable named $x'', startPos = 0, endPos = 1\<rparr>]
   \<and> setExpr ''1 + 1'' (snd (isValid example_parser example_binder unparsed_example))
       = unparsed_example\<lparr>m_expression := ''1 + 1''\<rparr>
   \<and> getErrors (setExpr ''1 + 1'' (snd (isValid example_parser example_binder unparsed_example)))
       = []"
  using setExpr_resets
    [of "''1 + 1''" "snd (isValid example_parser example_binder unparsed_example)"]
  by (simp add: staging_defs example_defs getErrors_def setExpr_def error_type_def)

text \<open>
  C8. \<open>usesVar(name)\<close> and \<open>usesFunc(name)\<close> run \<open>parseIfNeeded()\<close> and nothing else:
  the object they leave is the object itself when it was already parsed and the parsed
  object otherwise, never a prepared one, and it is parsed. They answer whether the name
  is a member of the set of used variables (of used functions) of that object.
\<close>

theorem uses_queries_parse_only:
  "usesVar P name e = (name \<in> m_vars (parseIfNeeded P e), parseIfNeeded P e)
   \<and> usesFunc P name e = (name \<in> m_funcs (parseIfNeeded P e), parseIfNeeded P e)
   \<and> snd (usesVar P name e) = (if m_parsed e then e else parse P e)
   \<and> snd (usesFunc P name e) = (if m_parsed e then e else parse P e)
   \<and> m_parsed (snd (usesVar P name e)) \<and> m_parsed (snd (usesFunc P name e))"
  by (simp add: usesVar_def usesFunc_def Let_def parseIfNeeded_def parse_def)

theorem uses_queries_parse_only_witness:
  "\<not> fst (usesVar example_parser ''x'' unparsed_example)
   \<and> m_parsed (snd (usesVar example_parser ''x'' unparsed_example))
   \<and> \<not> m_prepped (snd (usesVar example_parser ''x'' unparsed_example))
   \<and> getErrors (snd (usesVar example_parser ''x'' unparsed_example)) = []
   \<and> fst (usesFunc example_parser ''rand''
        (snd (isValid example_parser example_binder unparsed_example)))
   \<and> snd (usesFunc example_parser ''rand''
        (snd (isValid example_parser example_binder unparsed_example)))
       = snd (isValid example_parser example_binder unparsed_example)"
  using uses_queries_parse_only [of example_parser "''x''" unparsed_example]
    uses_queries_parse_only [of example_parser "''rand''"
      "snd (isValid example_parser example_binder unparsed_example)"]
  by (simp add: staging_defs example_defs getErrors_def usesVar_def usesFunc_def)

text \<open>
  C2, as the claim states it, fails: on the freshly set expression
  \<open>$x + rand() # note\<close>, \<open>getErrors()\<close>, \<open>getComments()\<close>, \<open>isThreadSafe()\<close> and
  \<open>getThreadUnsafeFunctionCalls()\<close> answer from the empty caches of the unparsed object
  (no errors, no comments, thread-safe, no unsafe calls), where after the staging that
  \<open>isValid()\<close> triggers they answer one error, one comment, not thread-safe and the call
  of \<open>rand\<close>.
\<close>

theorem getters_skip_staging:
  "setExpr (getExpr unparsed_example) unparsed_example = unparsed_example
   \<and> \<not> m_parsed unparsed_example \<and> \<not> m_prepped unparsed_example
   \<and> getErrors unparsed_example = []
   \<and> getComments unparsed_example = []
   \<and> isThreadSafe unparsed_example
   \<and> getThreadUnsafeFunctionCalls unparsed_example = []
   \<and> getErrors (snd (isValid example_parser example_binder unparsed_example))
       = [\<lparr>error = ''No variable named $x'', startPos = 0, endPos = 1\<rparr>]
   \<and> getComments (snd (isValid example_parser example_binder unparsed_example)) = [(12, 17)]
   \<and> \<not> isThreadSafe (snd (isValid example_parser example_binder unparsed_example))
   \<and> getThreadUnsafeFunctionCalls (snd (isValid example_parser example_binder unparsed_example))
       = [''rand'']"
  by (simp add: staging_defs example_defs getErrors_def setExpr_def getExpr_def
      getComments_def isThreadSafe_def getThreadUnsafeFunctionCalls_def)

text \<open>
  C2, amended. The queries \<open>isValid()\<close>, \<open>isVec()\<close> and \<open>returnType()\<close> run
  \<open>prepIfNeeded()\<close> and answer from the prepared object it leaves: on an object that is
  not yet prepared that is the object after the parse (if it was not yet parsed) and the
  tree walk, with \<open>_prepped\<close> set. \<open>syntaxOK()\<close>, \<open>isConstant()\<close>, \<open>usesVar(name)\<close> and
  \<open>usesFunc(name)\<close> run \<open>parseIfNeeded()\<close> and answer from the parsed object it leaves:
  on an object that is not yet parsed that is the object after the parser, with
  \<open>_parsed\<close> set. \<open>getErrors()\<close>, \<open>getComments()\<close>, \<open>isThreadSafe()\<close> and
  \<open>getThreadUnsafeFunctionCalls()\<close> trigger no staging: they answer from the lists the
  object holds when they are called, which on a freshly set expression are empty whatever
  the text is.
\<close>

theorem staged_queries_and_plain_getters:
  "isValid P B e = (m_isValid (prepIfNeeded P B e), prepIfNeeded P B e)
   \<and> isVec P B vecOf e = (vecOf (prepIfNeeded P B e), prepIfNeeded P B e)
   \<and> returnType P B e = (m_returnType (prepIfNeeded P B e), prepIfNeeded P B e)
   \<and> syntaxOK P e = (m_parseTree (parseIfNeeded P e) \<noteq> None, parseIfNeeded P e)
   \<and> isConstant P constOf e = (constOf (parseIfNeeded P e), parseIfNeeded P e)
   \<and> usesVar P name e = (name \<in> m_vars (parseIfNeeded P e), parseIfNeeded P e)
   \<and> usesFunc P name e = (name \<in> m_funcs (parseIfNeeded P e), parseIfNeeded P e)
   \<and> prepIfNeeded P B e
       = (if m_prepped e then e else (B (parseIfNeeded P e))\<lparr>m_prepped := True\<rparr>)
   \<and> parseIfNeeded P e = (if m_parsed e then e else (P e)\<lparr>m_parsed := True\<rparr>)
   \<and> m_prepped (prepIfNeeded P B e)
   \<and> m_parsed (parseIfNeeded P e)
   \<and> getErrors e = m_errors e
   \<and> getComments e = m_comments e
   \<and> isThreadSafe e = (m_threadUnsafeFunctionCalls e = [])
   \<and> getThreadUnsafeFunctionCalls e = m_threadUnsafeFunctionCalls e
   \<and> getErrors (setExpr text e) = []
   \<and> getComments (setExpr text e) = []
   \<and> isThreadSafe (setExpr text e)
   \<and> getThreadUnsafeFunctionCalls (setExpr text e) = []"
  by (simp add: staging_defs isVec_def returnType_def syntaxOK_def isConstant_def usesVar_def
      usesFunc_def getErrors_def getComments_def isThreadSafe_def
      getThreadUnsafeFunctionCalls_def setExpr_def)

theorem staged_queries_and_plain_getters_witness:
  "isValid example_parser example_binder unparsed_example
     = (False, (example_binder ((example_parser unparsed_example)\<lparr>m_parsed := True\<rparr>))
                 \<lparr>m_prepped := True\<rparr>)
   \<and> syntaxOK example_parser unparsed_example
     = (True, (example_parser unparsed_example)\<lparr>m_parsed := True\<rparr>)
   \<and> isConstant example_parser (\<lambda>e. m_comments e = [(12, 17)]) unparsed_example
     = (True, (example_parser unparsed_example)\<lparr>m_parsed := True\<rparr>)
   \<and> fst (returnType example_parser example_binder unparsed_example) = error_type
   \<and> fst (isVec example_parser example_binder (\<lambda>e. m_errors e \<noteq> []) unparsed_example)
   \<and> fst (usesFunc example_parser ''rand''
        (snd (isValid example_parser example_binder unparsed_example)))
   \<and> getErrors (setExpr ''1 +'' (snd (isValid example_parser example_binder unparsed_example)))
       = []"
  using staged_queries_and_plain_getters
      [of example_parser example_binder unparsed_example "\<lambda>e. m_errors e \<noteq> []"
        "\<lambda>e. m_comments e = [(12, 17)]" "''x''" "''1 +''"]
    staged_queries_and_plain_getters
      [of example_parser example_binder
        "snd (isValid example_parser example_binder unparsed_example)"
        "\<lambda>e. m_errors e \<noteq> []" "\<lambda>e. m_comments e = [(12, 17)]" "''rand''" "''1 +''"]
  by (simp add: staging_defs example_defs syntaxOK_def isConstant_def isVec_def
      returnType_def usesFunc_def getErrors_def setExpr_def)

end
